theory Spec2Isabelle
  imports Main
begin

section \<open>The authentication controller of the e-commerce backend\<close>

text \<open>
  A shallow embedding of \<^verbatim>\<open>controllers/authenticationController.js\<close>. Every handler
  is a function from the request, the user collection and the clock to what the handler
  does with \<^verbatim>\<open>res\<close> and \<^verbatim>\<open>next\<close>, together with the collection it leaves behind.
  Libraries and modules the controller only calls (jsonwebtoken, crypto, the Joi schema,
  the mailer, \<^verbatim>\<open>User.create\<close>, the password comparison) are fields of an environment
  record, so every theorem holds for each of their implementations.
\<close>

subsection \<open>JavaScript values\<close>

type_synonym timestamp = int

text \<open>A call returns a plain value, or a promise that settles to one.\<close>

datatype 'a js = Plain 'a | Promise 'a

text \<open>\<^verbatim>\<open>await e\<close>: the value a promise settles to; a plain value is passed through.\<close>

fun await :: "'a js \<Rightarrow> 'a" where
  "await (Plain v) = v"
| "await (Promise v) = v"

text \<open>ToBoolean of an expression that was not awaited: a promise is an object, and
  every object is truthy.\<close>

fun truthy :: "bool js \<Rightarrow> bool" where
  "truthy (Plain b) = b"
| "truthy (Promise b) = True"

text \<open>\<^verbatim>\<open>!s\<close> for \<^verbatim>\<open>s\<close> undefined or a string: only the empty string is falsy.\<close>

definition falsy :: "string option \<Rightarrow> bool" where
  "falsy s = (case s of None \<Rightarrow> True | Some v \<Rightarrow> v = [])"

definition startsWith :: "string \<Rightarrow> string \<Rightarrow> bool" where
  "startsWith s p = (take (length p) s = p)"

text \<open>\<^verbatim>\<open>s.split(sep)\<close> for a separator of one character: the empty string gives one
  empty piece, and consecutive separators give empty pieces.\<close>

fun split_str :: "char \<Rightarrow> string \<Rightarrow> string list" where
  "split_str sep [] = [[]]"
| "split_str sep (c # cs) =
     (if c = sep then [] # split_str sep cs
      else (case split_str sep cs of [] \<Rightarrow> [[c]] | w # ws \<Rightarrow> (c # w) # ws))"

text \<open>\<^verbatim>\<open>xs[i]\<close>: undefined out of range.\<close>

definition at_index :: "'a list \<Rightarrow> nat \<Rightarrow> 'a option" where
  "at_index xs i = (if i < length xs then Some (xs ! i) else None)"

subsection \<open>Users, requests and responses\<close>

record addr =
  country :: "string option"
  city :: "string option"
  street :: "string option"
  zipcode :: "string option"

text \<open>The object literal that \<^verbatim>\<open>signup\<close> hands to \<^verbatim>\<open>User.create\<close>.\<close>

record profile =
  name :: "string option"
  email :: "string option"
  phone :: "string option"
  password :: "string option"
  passwordConfirm :: "string option"
  role :: "string option"
  photo :: "string option"
  address :: addr

text \<open>A user document: the profile, the identifier \<^verbatim>\<open>_id\<close> and the security fields.
  In a stored document \<open>password\<close> holds the hash.\<close>

record user = profile +
  uid :: nat
  passwordChangedAt :: "timestamp option"
  passwordResetToken :: "string option"
  passwordResetExpires :: "timestamp option"

text \<open>\<^verbatim>\<open>req.body\<close>: the keys the handlers read, each one possibly missing.\<close>

record body =
  body_name :: "string option"
  body_email :: "string option"
  body_password :: "string option"
  body_passwordConfirm :: "string option"
  body_passwordCurrent :: "string option"
  body_role :: "string option"
  body_photo :: "string option"
  body_phone :: "string option"
  body_address :: "addr option"

record request =
  headers_authorization :: "string option"
  cookies_jwt :: "string option"
  req_body :: body
  params_token :: string
  protocol :: string
  host :: "string option"
  req_user :: "user option"

datatype AppError = AppError string nat

record cookie =
  cookie_name :: string
  cookie_value :: string
  expires :: timestamp
  httpOnly :: bool
  secure :: bool

datatype json_body =
    TokenBody string string user
  | StatusBody string
  | ResetBody string string string

record response =
  status :: nat
  cookies :: "cookie list"
  json :: json_body

text \<open>What a handler ends with: \<^verbatim>\<open>next()\<close>, \<^verbatim>\<open>next(new AppError(..))\<close>, an
  exception (which \<^verbatim>\<open>catchAsync\<close> forwards to \<^verbatim>\<open>next\<close>), or a response.\<close>

datatype outcome =
    Next
  | NextError AppError
  | Thrown string
  | Responded response

record decoded =
  decoded_id :: nat
  decoded_iat :: timestamp

record mail =
  mail_email :: "string option"
  mail_subject :: string
  mail_message :: string

text \<open>
  What the controller imports and calls but does not define:
  \<^item> \<open>jwt_sign id now\<close> is \<^verbatim>\<open>jwt.sign({ id }, JWT_SECRET, { expiresIn })\<close>;
  \<^item> \<open>jwt_verify token now\<close> is \<^verbatim>\<open>promisify(jwt.verify)(token, JWT_SECRET, {})\<close>:
    the decoded payload, or the message of the error it rejects with;
  \<^item> \<open>sha256_hex\<close> is \<^verbatim>\<open>crypto.createHash('sha256').update(s).digest('hex')\<close>;
  \<^item> \<open>hash_password\<close> is the password hash of the store layer;
  \<^item> \<open>correctPassword candidate stored\<close> is the instance method of the user model;
  \<^item> \<open>authValidate\<close> is the Joi schema: the message of the validation error, if any;
  \<^item> \<open>User_create\<close> is \<^verbatim>\<open>User.create\<close>: the new document and collection, or the
    message of the error it rejects with;
  \<^item> \<open>sendEmail\<close> is the mailer: whether delivery succeeded (it throws otherwise);
  \<^item> \<open>production\<close> is \<^verbatim>\<open>process.env.NODE_ENV === 'production'\<close>.
\<close>

record env =
  jwt_sign :: "nat \<Rightarrow> timestamp \<Rightarrow> string"
  jwt_verify :: "string \<Rightarrow> timestamp \<Rightarrow> string + decoded"
  sha256_hex :: "string \<Rightarrow> string"
  hash_password :: "string \<Rightarrow> string"
  correctPassword :: "string option \<Rightarrow> string option \<Rightarrow> bool js"
  authValidate :: "body \<Rightarrow> string option"
  User_create :: "profile \<Rightarrow> timestamp \<Rightarrow> user list \<Rightarrow> string + (user \<times> user list)"
  sendEmail :: "mail \<Rightarrow> bool"
  production :: bool
  JWT_COOKIE_EXPIRES_IN :: int

subsection \<open>The user model and its collection\<close>

text \<open>The collection is the list of its documents, in the order queries scan them.
  Reads and writes of the collection are taken to succeed.\<close>

type_synonym store = "user list"

text \<open>Modelled from the spec: the schema of \<^verbatim>\<open>models/User\<close> (missing from the sources)
  excludes the password hash from normal reads; \<^verbatim>\<open>.select('+password')\<close> includes it.\<close>

definition hide_password :: "user \<Rightarrow> user" where
  "hide_password u = u\<lparr>password := None\<rparr>"

text \<open>\<^verbatim>\<open>User.findOne({ email }).select('+password')\<close>: the first document with that
  email, password hash included. A query whose email is undefined finds no document.\<close>

definition findOne_email :: "store \<Rightarrow> string option \<Rightarrow> user option" where
  "findOne_email st e =
     (case e of None \<Rightarrow> None | Some a \<Rightarrow> find (\<lambda>v. email v = Some a) st)"

text \<open>\<^verbatim>\<open>User.findById(id).select('+password')\<close>.\<close>

definition findById :: "store \<Rightarrow> nat \<Rightarrow> user option" where
  "findById st i = find (\<lambda>v. uid v = i) st"

text \<open>The filter \<^verbatim>\<open>{ passwordResetToken: h, passwordResetExpires: { $gt: now } }\<close>.\<close>

definition reset_matches :: "string \<Rightarrow> timestamp \<Rightarrow> user \<Rightarrow> bool" where
  "reset_matches h now v =
     (passwordResetToken v = Some h \<and>
      (case passwordResetExpires v of None \<Rightarrow> False | Some e \<Rightarrow> now < e))"

definition findOne_reset :: "store \<Rightarrow> string \<Rightarrow> timestamp \<Rightarrow> user option" where
  "findOne_reset st h now = find (reset_matches h now) st"

text \<open>Modelled from the spec: the instance method \<^verbatim>\<open>changedPasswordAfter\<close> of
  \<^verbatim>\<open>models/User\<close> (missing from the sources): the freshness check
  \<^verbatim>\<open>user.passwordChangedAt > token.issuedAt\<close>; a user whose password never changed has
  no \<open>passwordChangedAt\<close>.\<close>

definition changedPasswordAfter :: "user \<Rightarrow> timestamp \<Rightarrow> bool" where
  "changedPasswordAfter u iat =
     (case passwordChangedAt u of None \<Rightarrow> False | Some t \<Rightarrow> iat < t)"

text \<open>Modelled from the spec: the instance method \<^verbatim>\<open>createPasswordResetToken\<close> of
  \<^verbatim>\<open>models/User\<close> (missing from the sources): it draws a random token \<open>rnd\<close>, keeps
  only its hash and an expiry ten minutes from now on the document, and returns the
  plaintext.\<close>

definition createPasswordResetToken :: "env \<Rightarrow> string \<Rightarrow> timestamp \<Rightarrow> user \<Rightarrow> string \<times> user" where
  "createPasswordResetToken E rnd now u =
     (rnd, u\<lparr>passwordResetToken := Some (sha256_hex E rnd),
              passwordResetExpires := Some (now + 10 * 60 * 1000)\<rparr>)"

text \<open>Modelled from the spec: the pre-save middleware of \<^verbatim>\<open>models/User\<close> (missing
  from the sources). When the password was assigned since the document was read
  (\<open>pw\<close>), the store layer hashes it, drops the transient \<open>passwordConfirm\<close> and stamps
  \<open>passwordChangedAt\<close>.\<close>

definition presave :: "env \<Rightarrow> timestamp \<Rightarrow> bool \<Rightarrow> user \<Rightarrow> user" where
  "presave E now pw u =
     (if pw then u\<lparr>password := map_option (hash_password E) (password u),
                    passwordConfirm := None,
                    passwordChangedAt := Some now\<rparr>
      else u)"

text \<open>Modelled from the spec: the persistence of a document of \<^verbatim>\<open>models/User\<close>
  (missing from the sources). What \<^verbatim>\<open>save\<close> writes into a stored document \<open>v\<close> from the
  document \<open>d\<close> in memory: the two reset fields, and the password with its timestamp when
  the password was assigned.\<close>

definition persist :: "bool \<Rightarrow> user \<Rightarrow> user \<Rightarrow> user" where
  "persist pw d v =
     v\<lparr>password := (if pw then password d else password v),
       passwordChangedAt := (if pw then passwordChangedAt d else passwordChangedAt v),
       passwordResetToken := passwordResetToken d,
       passwordResetExpires := passwordResetExpires d\<rparr>"

text \<open>\<^verbatim>\<open>await user.save({ validateBeforeSave: false })\<close>: no validation; the middleware
  runs, the document in memory is updated by it, and the stored document of the same
  \<^verbatim>\<open>_id\<close> receives the modified paths. \<open>pw\<close> tells whether the handler assigned
  \<^verbatim>\<open>user.password\<close> before saving.\<close>

definition save :: "env \<Rightarrow> timestamp \<Rightarrow> bool \<Rightarrow> user \<Rightarrow> store \<Rightarrow> user \<times> store" where
  "save E now pw d st =
     (let d' = presave E now pw d
      in (d', map (\<lambda>v. if uid v = uid d then persist pw d' v else v) st))"

text \<open>A stored document of identifier \<open>i\<close> with its two reset fields overwritten; any
  other document as it is.\<close>

definition set_reset :: "nat \<Rightarrow> string option \<Rightarrow> timestamp option \<Rightarrow> user \<Rightarrow> user" where
  "set_reset i h e v =
     (if uid v = i then v\<lparr>passwordResetToken := h, passwordResetExpires := e\<rparr> else v)"

subsection \<open>The handlers\<close>

definition signToken :: "env \<Rightarrow> nat \<Rightarrow> timestamp \<Rightarrow> string" where
  "signToken E i now = jwt_sign E i now"

text \<open>\<^verbatim>\<open>createAndSendToken(user, statusCode, res)\<close>: the cookie, the cleared password
  of the document in memory, and the JSON envelope.\<close>

definition createAndSendToken :: "env \<Rightarrow> user \<Rightarrow> nat \<Rightarrow> timestamp \<Rightarrow> response" where
  "createAndSendToken E u statusCode now =
     (let token = signToken E (uid u) now;
          cookieOptions =
            \<lparr>cookie_name = ''jwt'', cookie_value = token,
             expires = now + JWT_COOKIE_EXPIRES_IN E * 24 * 60 * 60 * 1000,
             httpOnly = True, secure = production E\<rparr>;
          u' = u\<lparr>password := None\<rparr>
      in \<lparr>status = statusCode, cookies = [cookieOptions],
          json = TokenBody ''success'' token u'\<rparr>)"

text \<open>The destructuring of \<^verbatim>\<open>req.body\<close> in \<^verbatim>\<open>signup\<close> and the object literal built
  from it: a body without \<^verbatim>\<open>address\<close> raises a TypeError (\<open>None\<close>); keys of the body
  that are not listed are dropped.\<close>

definition signup_fields :: "body \<Rightarrow> profile option" where
  "signup_fields b =
     (case body_address b of
        None \<Rightarrow> None
      | Some a \<Rightarrow>
          Some \<lparr>name = body_name b, email = body_email b, phone = body_phone b,
                password = body_password b, passwordConfirm = body_passwordConfirm b,
                role = body_role b, photo = body_photo b,
                address = \<lparr>country = country a, city = city a, street = street a,
                           zipcode = zipcode a\<rparr>\<rparr>)"

definition signup :: "env \<Rightarrow> request \<Rightarrow> store \<Rightarrow> timestamp \<Rightarrow> outcome \<times> store" where
  "signup E req st now =
     (case authValidate E (req_body req) of
        Some m \<Rightarrow> (NextError (AppError m 400), st)
      | None \<Rightarrow>
          (case signup_fields (req_body req) of
             None \<Rightarrow> (Thrown ''TypeError'', st)
           | Some args \<Rightarrow>
               (case User_create E args now st of
                  Inl e \<Rightarrow> (Thrown e, st)
                | Inr (newUser, st') \<Rightarrow>
                    (Responded (createAndSendToken E newUser 201 now), st'))))"

definition login :: "env \<Rightarrow> request \<Rightarrow> store \<Rightarrow> timestamp \<Rightarrow> outcome \<times> store" where
  "login E req st now =
     (let em = body_email (req_body req); pw = body_password (req_body req)
      in if falsy em \<or> falsy pw
         then (NextError (AppError ''please provide email and password!'' 400), st)
         else (case findOne_email st em of
                 None \<Rightarrow> (NextError (AppError ''InCorrect Email or Password!'' 401), st)
               | Some u \<Rightarrow>
                   if await (correctPassword E pw (password u))
                   then (Responded (createAndSendToken E u 200 now), st)
                   else (NextError (AppError ''InCorrect Email or Password!'' 401), st)))"

definition logout :: "timestamp \<Rightarrow> response" where
  "logout now =
     \<lparr>status = 200,
      cookies = [\<lparr>cookie_name = ''jwt'', cookie_value = ''logged out'',
                  expires = now + 10 * 1000, httpOnly = True, secure = False\<rparr>],
      json = StatusBody ''success''\<rparr>"

text \<open>The token \<^verbatim>\<open>protect\<close> reads: from the Authorization header when that is set and
  starts with \<^verbatim>\<open>Bearer\<close>, else from the \<^verbatim>\<open>jwt\<close> cookie when that is truthy. On
  success \<^verbatim>\<open>protect\<close> attaches the user to the request (and to \<^verbatim>\<open>res.locals\<close>, which
  the model leaves out) and calls \<^verbatim>\<open>next()\<close>.\<close>

definition protect_token :: "request \<Rightarrow> string option" where
  "protect_token req =
     (if \<not> falsy (headers_authorization req) \<and>
         startsWith (the (headers_authorization req)) ''Bearer''
      then at_index (split_str CHR '' '' (the (headers_authorization req))) 1
      else if \<not> falsy (cookies_jwt req) then cookies_jwt req
      else None)"

definition protect :: "env \<Rightarrow> request \<Rightarrow> store \<Rightarrow> timestamp \<Rightarrow> outcome \<times> request" where
  "protect E req st now =
     (let token = protect_token req
      in if falsy token
         then (NextError (AppError ''You are not logged in! Please Login to get access'' 401), req)
         else (case jwt_verify E (the token) now of
                 Inl e \<Rightarrow> (Thrown e, req)
               | Inr d \<Rightarrow>
                   (case map_option hide_password (findById st (decoded_id d)) of
                      None \<Rightarrow>
                        (NextError (AppError ''The user belonging to this token no longer exists.'' 401), req)
                    | Some currentUser \<Rightarrow>
                        if changedPasswordAfter currentUser (decoded_iat d)
                        then (NextError (AppError ''User Recently Changed the Password, Please Login Again'' 401), req)
                        else (Next, req\<lparr>req_user := Some currentUser\<rparr>))))"

definition restrictTo :: "string list \<Rightarrow> request \<Rightarrow> outcome" where
  "restrictTo roles req =
     (case req_user req of
        None \<Rightarrow> Thrown ''TypeError''
      | Some u \<Rightarrow>
          if (case role u of None \<Rightarrow> False | Some r \<Rightarrow> r \<in> set roles) then Next
          else NextError (AppError ''YOu are not authorized to perform this action'' 403))"

definition resetURL :: "request \<Rightarrow> string \<Rightarrow> string" where
  "resetURL req resetToken =
     protocol req @ ''://'' @ (case host req of None \<Rightarrow> ''undefined'' | Some h \<Rightarrow> h)
       @ ''/api/v1/users/resetPassword/'' @ resetToken"

definition reset_mail :: "request \<Rightarrow> user \<Rightarrow> string \<Rightarrow> mail" where
  "reset_mail req u resetToken =
     \<lparr>mail_email = email u,
      mail_subject = ''Your Password Reset Token (Valid for 10 mins)'',
      mail_message =
        ''Forgot your Password? Submit a request with your new password and password confirmation to: ''
        @ resetURL req resetToken
        @ ''.'' @ [CHR 0x0A] @ ''if you didn't forget your password please ignore this email''\<rparr>"

text \<open>\<open>rnd\<close> is the random token that \<^verbatim>\<open>createPasswordResetToken\<close> draws.\<close>

definition forgotPassword ::
    "env \<Rightarrow> request \<Rightarrow> string \<Rightarrow> store \<Rightarrow> timestamp \<Rightarrow> outcome \<times> store" where
  "forgotPassword E req rnd st now =
     (case map_option hide_password (findOne_email st (body_email (req_body req))) of
        None \<Rightarrow>
          (NextError (AppError ''Please provide a valid email for resetting your password'' 404), st)
      | Some u0 \<Rightarrow>
          (let (resetToken, u1) = createPasswordResetToken E rnd now u0;
               (u2, st1) = save E now False u1 st
           in if sendEmail E (reset_mail req u2 resetToken)
              then (Responded \<lparr>status = 200, cookies = [],
                                json = ResetBody ''success'' ''token sent to email'' resetToken\<rparr>,
                    st1)
              else (let u3 = u2\<lparr>passwordResetToken := None, passwordResetExpires := None\<rparr>;
                        (u4, st2) = save E now False u3 st1
                    in (NextError (AppError ''There was an Error Sending the email, try again later'' 500),
                        st2))))"

definition resetPassword :: "env \<Rightarrow> request \<Rightarrow> store \<Rightarrow> timestamp \<Rightarrow> outcome \<times> store" where
  "resetPassword E req st now =
     (let hashedToken = sha256_hex E (params_token req)
      in (case map_option hide_password (findOne_reset st hashedToken now) of
            None \<Rightarrow> (NextError (AppError ''Token is invalid or has expired'' 400), st)
          | Some u \<Rightarrow>
              (let u1 = u\<lparr>password := body_password (req_body req),
                          passwordConfirm := body_passwordConfirm (req_body req),
                          passwordResetToken := None,
                          passwordResetExpires := None\<rparr>;
                   (u2, st1) = save E now True u1 st
               in (Responded (createAndSendToken E u2 200 now), st1))))"

definition updatePassword :: "env \<Rightarrow> request \<Rightarrow> store \<Rightarrow> timestamp \<Rightarrow> outcome \<times> store" where
  "updatePassword E req st now =
     (case req_user req of
        None \<Rightarrow> (Thrown ''TypeError'', st)
      | Some ru \<Rightarrow>
          (case findById st (uid ru) of
             None \<Rightarrow> (NextError (AppError ''No user found'' 400), st)
           | Some u \<Rightarrow>
               if \<not> truthy (correctPassword E (body_passwordCurrent (req_body req)) (password u))
               then (NextError (AppError ''Password provided is incorrect'' 400), st)
               else (let u1 = u\<lparr>password := body_password (req_body req),
                                  passwordConfirm := body_passwordConfirm (req_body req)\<rparr>;
                         (u2, st1) = save E now True u1 st
                     in (Responded (createAndSendToken E u2 200 now), st1))))"

subsection \<open>Sample data\<close>

text \<open>One implementation of the environment and a few documents and requests, for
  running the handlers on concrete inputs. Here the password comparison returns a
  promise, as a hashing library does.\<close>

definition demo_create :: "profile \<Rightarrow> timestamp \<Rightarrow> store \<Rightarrow> string + (user \<times> store)" where
  "demo_create p now st =
     (if find (\<lambda>v. email v = email p) st \<noteq> None then Inl ''duplicate key''
      else (let u = \<lparr>name = name p, email = email p, phone = phone p,
                      password = map_option (\<lambda>s. CHR ''#'' # s) (password p),
                      passwordConfirm = None, role = role p, photo = photo p,
                      address = address p, uid = length st + 1,
                      passwordChangedAt = None, passwordResetToken = None,
                      passwordResetExpires = None\<rparr>
            in Inr (u, st @ [u])))"

definition demo_env :: env where
  "demo_env =
     \<lparr>jwt_sign = (\<lambda>i now. ''signed''),
      jwt_verify = (\<lambda>t now. if t = ''signed'' then Inr \<lparr>decoded_id = 1, decoded_iat = 100\<rparr>
                             else Inl ''invalid signature''),
      sha256_hex = (\<lambda>s. CHR ''h'' # s),
      hash_password = (\<lambda>s. CHR ''#'' # s),
      correctPassword = (\<lambda>c s. Promise (c \<noteq> None \<and> map_option (\<lambda>x. CHR ''#'' # x) c = s)),
      authValidate = (\<lambda>b. if falsy (body_email b) then Some ''email is required'' else None),
      User_create = demo_create,
      sendEmail = (\<lambda>m. True),
      production = False,
      JWT_COOKIE_EXPIRES_IN = 90\<rparr>"

definition no_addr :: addr where
  "no_addr = \<lparr>country = None, city = None, street = None, zipcode = None\<rparr>"

definition empty_body :: body where
  "empty_body =
     \<lparr>body_name = None, body_email = None, body_password = None,
      body_passwordConfirm = None, body_passwordCurrent = None, body_role = None,
      body_photo = None, body_phone = None, body_address = None\<rparr>"

definition empty_request :: request where
  "empty_request =
     \<lparr>headers_authorization = None, cookies_jwt = None, req_body = empty_body,
      params_token = [], protocol = ''http'', host = Some ''shop.test'', req_user = None\<rparr>"

definition alice :: user where
  "alice =
     \<lparr>name = Some ''Alice'', email = Some ''a@b.com'', phone = Some ''1'',
      password = Some ''#secret123'', passwordConfirm = None, role = Some ''user'',
      photo = None, address = no_addr, uid = 1,
      passwordChangedAt = None, passwordResetToken = None, passwordResetExpires = None\<rparr>"

definition carol :: user where
  "carol = alice\<lparr>passwordResetToken := Some ''hold'', passwordResetExpires := Some 900\<rparr>"

definition forgot_request :: request where
  "forgot_request = empty_request\<lparr>req_body := empty_body\<lparr>body_email := Some ''a@b.com''\<rparr>\<rparr>"

definition signup_request :: request where
  "signup_request =
     empty_request\<lparr>req_body :=
       \<lparr>body_name = Some ''A'', body_email = Some ''a@b.com'', body_password = Some ''secret123'',
        body_passwordConfirm = Some ''secret123'', body_passwordCurrent = None,
        body_role = Some ''admin'', body_photo = None, body_phone = Some ''1'',
        body_address = Some \<lparr>country = Some ''X'', city = Some ''Y'', street = Some ''Z'',
                              zipcode = Some ''0''\<rparr>\<rparr>\<rparr>"

definition login_request :: "string \<Rightarrow> string \<Rightarrow> request" where
  "login_request e p =
     empty_request\<lparr>req_body := empty_body\<lparr>body_email := Some e, body_password := Some p\<rparr>\<rparr>"

definition reset_request :: "string \<Rightarrow> string \<Rightarrow> request" where
  "reset_request t p =
     empty_request\<lparr>params_token := t,
       req_body := empty_body\<lparr>body_password := Some p, body_passwordConfirm := Some p\<rparr>\<rparr>"

definition update_request :: "user \<Rightarrow> string \<Rightarrow> string \<Rightarrow> request" where
  "update_request u cur p =
     empty_request\<lparr>req_user := Some u,
       req_body := empty_body\<lparr>body_passwordCurrent := Some cur, body_password := Some p,
                               body_passwordConfirm := Some p\<rparr>\<rparr>"

section \<open>Properties of the handlers\<close>

subsection \<open>Unfolding the model\<close>

lemmas sample_defs =
  demo_env_def demo_create_def empty_request_def empty_body_def alice_def carol_def no_addr_def
  forgot_request_def signup_request_def login_request_def reset_request_def update_request_def

lemmas model_defs =
  falsy_def startsWith_def at_index_def hide_password_def findOne_email_def findById_def
  reset_matches_def findOne_reset_def changedPasswordAfter_def createPasswordResetToken_def
  presave_def persist_def save_def signToken_def createAndSendToken_def signup_fields_def
  resetURL_def reset_mail_def set_reset_def Let_def

subsection \<open>Lists and the collection\<close>

lemma split_str_no_sep: "sep \<notin> set s \<Longrightarrow> split_str sep s = [s]"
  by (induction s) auto

lemma find_map_preserve:
  "(\<And>v. P (f v) = P v) \<Longrightarrow> find P (map f xs) = map_option f (find P xs)"
  by (induction xs) auto

lemma find_SomeD: "find P xs = Some x \<Longrightarrow> P x \<and> x \<in> set xs"
  by (induction xs) (auto split: if_splits)

lemma find_exists: "x \<in> set xs \<Longrightarrow> P x \<Longrightarrow> \<exists>y. find P xs = Some y"
  by (induction xs) auto

lemma save_unmodified:
  "save E now False d st =
     (d, map (set_reset (uid d) (passwordResetToken d) (passwordResetExpires d)) st)"
  by (simp add: save_def presave_def persist_def set_reset_def Let_def)

lemma reset_mail_email: "email u' = email u \<Longrightarrow> reset_mail req u' t = reset_mail req u t"
  by (simp add: reset_mail_def)

lemma forgotPassword_found:
  assumes "findOne_email st (body_email (req_body req)) = Some u"
  shows "forgotPassword E req rnd st now =
     (if sendEmail E (reset_mail req u rnd)
      then (Responded \<lparr>status = 200, cookies = [],
                        json = ResetBody ''success'' ''token sent to email'' rnd\<rparr>,
            map (set_reset (uid u) (Some (sha256_hex E rnd)) (Some (now + 10 * 60 * 1000))) st)
      else (NextError (AppError ''There was an Error Sending the email, try again later'' 500),
            map (set_reset (uid u) None None) st))"
proof -
  have m: "reset_mail req (hide_password u\<lparr>passwordResetToken := Some (sha256_hex E rnd),
              passwordResetExpires := Some (now + 10 * 60 * 1000)\<rparr>) rnd = reset_mail req u rnd"
    by (rule reset_mail_email) (simp add: hide_password_def)
  have twice: "set_reset i None None (set_reset i h e x) = set_reset i None None x" for i h e x
    by (simp add: set_reset_def)
  show ?thesis
    using assms m
    by (simp add: forgotPassword_def createPasswordResetToken_def save_unmodified
          hide_password_def twice)
qed


lemma resetPassword_found:
  assumes "findOne_reset st (sha256_hex E (params_token req)) now = Some w"
  shows "\<exists>r d. resetPassword E req st now =
           (Responded r,
            map (\<lambda>v. if uid v = uid w then persist True d v else v) st)
         \<and> status r = 200
         \<and> passwordResetToken d = None \<and> passwordResetExpires d = None"
proof -
  let ?d = "presave E now True
              (hide_password w\<lparr>password := body_password (req_body req),
                 passwordConfirm := body_passwordConfirm (req_body req),
                 passwordResetToken := None, passwordResetExpires := None\<rparr>)"
  have "resetPassword E req st now =
          (Responded (createAndSendToken E ?d 200 now),
           map (\<lambda>v. if uid v = uid w then persist True ?d v else v) st)"
    using assms
    by (simp add: resetPassword_def Let_def save_def hide_password_def presave_def)
  moreover have "status (createAndSendToken E ?d 200 now) = 200"
    by (simp add: createAndSendToken_def Let_def)
  moreover have "passwordResetToken ?d = None \<and> passwordResetExpires ?d = None"
    by (simp add: presave_def)
  ultimately show ?thesis by blast
qed

lemma createAndSendToken_body:
  "\<exists>tok u'. json (createAndSendToken E u code now) = TokenBody ''success'' tok u' \<and> password u' = None"
  by (simp add: createAndSendToken_def Let_def)

subsection \<open>Updating the password\<close>

text \<open>Were \<open>correctPassword\<close> to return a plain boolean, a wrong current password would
  end \<^verbatim>\<open>updatePassword\<close> with the 400 error and leave the collection alone.\<close>

lemma updatePassword_plain_mismatch:
  assumes "req_user req = Some ru" and "findById st (uid ru) = Some u"
    and "correctPassword E (body_passwordCurrent (req_body req)) (password u) = Plain False"
  shows "updatePassword E req st now = (NextError (AppError ''Password provided is incorrect'' 400), st)"
  using assms by (simp add: updatePassword_def)

text \<open>\<^verbatim>\<open>login\<close> awaits \<open>correctPassword\<close>; \<^verbatim>\<open>updatePassword\<close> negates its result
  without awaiting it. When the method returns a promise, the negation is false whatever
  the promise settles to, and the handler goes on to save the new password.\<close>

lemma updatePassword_promise_unchecked:
  assumes "req_user req = Some ru" and "findById st (uid ru) = Some u"
    and "correctPassword E (body_passwordCurrent (req_body req)) (password u) = Promise b"
  shows "\<exists>r. fst (updatePassword E req st now) = Responded r \<and> status r = 200"
  using assms by (simp add: updatePassword_def Let_def createAndSendToken_def split: prod.splits)

text \<open>
  C1. A request whose current password does not match the stored hash should end with
  the 400 error and set no new password. With the comparison that \<^verbatim>\<open>login\<close> awaits
  (a promise), the sample user's password is compared with the wrong guess \<open>guess\<close>:
  \<^verbatim>\<open>login\<close> rejects the guess with 401, while \<^verbatim>\<open>updatePassword\<close> answers 200 with a
  fresh token and stores the hash of the new password.
\<close>

theorem updatePassword_accepts_wrong_current_password:
  "await (correctPassword demo_env (Some ''guess'') (password alice)) = False
   \<and> fst (login demo_env (login_request ''a@b.com'' ''guess'') [alice] 0)
       = NextError (AppError ''InCorrect Email or Password!'' 401)
   \<and> updatePassword demo_env (update_request alice ''guess'' ''hacked123'') [alice] 1000
       = (Responded (createAndSendToken demo_env (alice\<lparr>passwordChangedAt := Some 1000\<rparr>) 200 1000),
          [alice\<lparr>password := Some ''#hacked123'', passwordChangedAt := Some 1000\<rparr>])"
  by (simp add: sample_defs model_defs login_def updatePassword_def)

subsection \<open>Route protection\<close>

text \<open>
  C2. A token that \<^verbatim>\<open>protect\<close> accepts was issued no earlier than the user's last
  password change: when \<^verbatim>\<open>protect\<close> calls \<^verbatim>\<open>next()\<close>, the token verified, its user
  exists and is attached to the request, and the user's \<open>passwordChangedAt\<close>, if any, is
  not later than the token's \<open>iat\<close>. And when a verified token of an existing user is
  older than that user's \<open>passwordChangedAt\<close>, \<^verbatim>\<open>protect\<close> ends with the 401 error and
  attaches nothing.
\<close>

theorem protect_rejects_stale_token:
  "(fst (protect E req st now) = Next \<longrightarrow>
      (\<exists>tok d u. protect_token req = Some tok \<and> jwt_verify E tok now = Inr d
         \<and> findById st (decoded_id d) = Some u
         \<and> req_user (snd (protect E req st now)) = Some (hide_password u)
         \<and> (case passwordChangedAt u of None \<Rightarrow> True | Some t \<Rightarrow> t \<le> decoded_iat d)))
   \<and> (protect_token req = Some tok \<and> tok \<noteq> [] \<and> jwt_verify E tok now = Inr d
        \<and> findById st (decoded_id d) = Some u \<and> passwordChangedAt u = Some t \<and> decoded_iat d < t \<longrightarrow>
      protect E req st now =
        (NextError (AppError ''User Recently Changed the Password, Please Login Again'' 401), req))"
  by (auto simp: protect_def Let_def falsy_def changedPasswordAfter_def hide_password_def
           split: option.splits sum.splits if_splits)

text \<open>The sample token was issued at 100: a password changed at 150 makes it stale, one
  changed at 50 does not.\<close>

theorem protect_rejects_stale_token_witness:
  "protect_token (empty_request\<lparr>cookies_jwt := Some ''signed''\<rparr>) = Some ''signed''
   \<and> jwt_verify demo_env ''signed'' 200 = Inr \<lparr>decoded_id = 1, decoded_iat = 100\<rparr>
   \<and> findById [alice\<lparr>passwordChangedAt := Some 150\<rparr>] 1 = Some (alice\<lparr>passwordChangedAt := Some 150\<rparr>)
   \<and> protect demo_env (empty_request\<lparr>cookies_jwt := Some ''signed''\<rparr>) [alice\<lparr>passwordChangedAt := Some 150\<rparr>] 200
       = (NextError (AppError ''User Recently Changed the Password, Please Login Again'' 401),
          empty_request\<lparr>cookies_jwt := Some ''signed''\<rparr>)
   \<and> fst (protect demo_env (empty_request\<lparr>cookies_jwt := Some ''signed''\<rparr>) [alice\<lparr>passwordChangedAt := Some 50\<rparr>] 200) = Next"
  using protect_rejects_stale_token [of demo_env "empty_request\<lparr>cookies_jwt := Some ''signed''\<rparr>"
      "[alice\<lparr>passwordChangedAt := Some 150\<rparr>]" 200 "''signed''" "\<lparr>decoded_id = 1, decoded_iat = 100\<rparr>"
      "alice\<lparr>passwordChangedAt := Some 150\<rparr>" 150]
  by (simp add: sample_defs model_defs protect_def protect_token_def)

text \<open>
  C9. When the Authorization header is set and starts with \<^verbatim>\<open>Bearer\<close>, what
  \<^verbatim>\<open>protect\<close> does never depends on the \<^verbatim>\<open>jwt\<close> cookie; and when that header has no
  space in it, there is no second part, no token, and the request ends with the 401
  ``not logged in'' error, before any verification of a signature.
\<close>

theorem protect_authorization_precedence:
  assumes "headers_authorization req = Some a" and "startsWith a ''Bearer''"
  shows "fst (protect E (req\<lparr>cookies_jwt := c\<rparr>) st now) = fst (protect E req st now)
       \<and> req_user (snd (protect E (req\<lparr>cookies_jwt := c\<rparr>) st now))
           = req_user (snd (protect E req st now))
       \<and> (CHR '' '' \<notin> set a \<longrightarrow>
            protect E req st now =
              (NextError (AppError ''You are not logged in! Please Login to get access'' 401), req))"
proof -
  have ne: "a \<noteq> []" using assms(2) by (auto simp: startsWith_def)
  have tok: "protect_token (req\<lparr>cookies_jwt := c\<rparr>) = protect_token req"
    using assms ne by (simp add: protect_token_def falsy_def)
  have none: "protect_token req = None" if "CHR '' '' \<notin> set a"
    using assms ne that by (simp add: protect_token_def falsy_def split_str_no_sep at_index_def)
  show ?thesis
    using tok none
    by (auto simp: protect_def Let_def falsy_def split: sum.splits option.splits)
qed

text \<open>A header that is just \<^verbatim>\<open>Bearer\<close> beside a valid cookie: not logged in; the
  same cookie alone is accepted.\<close>

theorem protect_authorization_precedence_witness:
  "headers_authorization (empty_request\<lparr>headers_authorization := Some ''Bearer''\<rparr>) = Some ''Bearer''
   \<and> startsWith ''Bearer'' ''Bearer''
   \<and> CHR '' '' \<notin> set ''Bearer''
   \<and> fst (protect demo_env (empty_request\<lparr>headers_authorization := Some ''Bearer'',
                                             cookies_jwt := Some ''signed''\<rparr>) [alice] 200)
       = NextError (AppError ''You are not logged in! Please Login to get access'' 401)
   \<and> fst (protect demo_env (empty_request\<lparr>cookies_jwt := Some ''signed''\<rparr>) [alice] 200) = Next"
  using protect_authorization_precedence
    [of "empty_request\<lparr>headers_authorization := Some ''Bearer''\<rparr>" "''Bearer''" demo_env
        "Some ''signed''" "[alice]" 200]
  by (simp add: sample_defs model_defs protect_def protect_token_def)

subsection \<open>Login\<close>

text \<open>
  C3. Two login requests that both carry an email and a password, one for an email that
  no document has, one for a stored email with a password the comparison rejects, end
  the same way: the same message and the same status 401, the collection untouched.
\<close>

theorem login_enumeration_resistance:
  assumes "\<not> falsy (body_email (req_body req1))" and "\<not> falsy (body_password (req_body req1))"
    and "\<not> falsy (body_email (req_body req2))" and "\<not> falsy (body_password (req_body req2))"
    and "findOne_email st1 (body_email (req_body req1)) = None"
    and "findOne_email st2 (body_email (req_body req2)) = Some u"
    and "\<not> await (correctPassword E (body_password (req_body req2)) (password u))"
  shows "login E req1 st1 now1 = (NextError (AppError ''InCorrect Email or Password!'' 401), st1)
       \<and> login E req2 st2 now2 = (NextError (AppError ''InCorrect Email or Password!'' 401), st2)
       \<and> fst (login E req1 st1 now1) = fst (login E req2 st2 now2)"
  using assms by (simp add: login_def Let_def)

text \<open>An unknown email and a wrong guess for a known one.\<close>

theorem login_enumeration_resistance_witness:
  "findOne_email [alice] (Some ''x@y.com'') = None
   \<and> findOne_email [alice] (Some ''a@b.com'') = Some alice
   \<and> \<not> await (correctPassword demo_env (Some ''guess'') (password alice))
   \<and> login demo_env (login_request ''x@y.com'' ''guess'') [alice] 0
       = (NextError (AppError ''InCorrect Email or Password!'' 401), [alice])
   \<and> login demo_env (login_request ''a@b.com'' ''guess'') [alice] 0
       = (NextError (AppError ''InCorrect Email or Password!'' 401), [alice])"
  using login_enumeration_resistance [of "login_request ''x@y.com'' ''guess''" "login_request ''a@b.com'' ''guess''"
      "[alice]" "[alice]" alice demo_env 0 0]
  by (simp add: sample_defs model_defs)

subsection \<open>The reset flow\<close>

text \<open>
  C4. A reset token is used once. Let \<^verbatim>\<open>forgotPassword\<close> find the user, draw a token
  whose hash no document carries yet, and deliver the mail. Then a first
  \<^verbatim>\<open>resetPassword\<close> with that plaintext and a new password, before the expiry, answers
  200; the one save it makes leaves the user's document with neither
  \<open>passwordResetToken\<close> nor \<open>passwordResetExpires\<close>; and a second \<^verbatim>\<open>resetPassword\<close> with
  the same plaintext fails with the 400 error at any later time.
\<close>

theorem reset_token_single_use:
  assumes found: "findOne_email st (body_email (req_body req)) = Some u"
    and sent: "sendEmail E (reset_mail req u rnd)"
    and fresh: "\<forall>v\<in>set st. passwordResetToken v \<noteq> Some (sha256_hex E rnd)"
    and tok: "params_token req' = rnd"
    and pw: "body_password (req_body req') = Some p"
    and early: "now1 < now + 10 * 60 * 1000"
  shows "\<exists>r st1 r1 st2 w.
           forgotPassword E req rnd st now = (Responded r, st1)
         \<and> resetPassword E req' st1 now1 = (Responded r1, st2) \<and> status r1 = 200
         \<and> findById st2 (uid u) = Some w
         \<and> passwordResetToken w = None \<and> passwordResetExpires w = None
         \<and> (\<forall>now2. resetPassword E req' st2 now2 =
               (NextError (AppError ''Token is invalid or has expired'' 400), st2))"
proof -
  define h where "h = sha256_hex E rnd"
  define f1 where "f1 = set_reset (uid u) (Some h) (Some (now + 10 * 60 * 1000))"
  define st1 where "st1 = map f1 st"
  have forgot: "forgotPassword E req rnd st now =
      (Responded \<lparr>status = 200, cookies = [],
                  json = ResetBody ''success'' ''token sent to email'' rnd\<rparr>, st1)"
    using forgotPassword_found [OF found] sent by (simp add: st1_def f1_def h_def)
  have u_in: "u \<in> set st"
    using found by (auto simp: findOne_email_def split: option.splits dest: find_SomeD)
  have in1: "f1 u \<in> set st1" using u_in by (simp add: st1_def)
  have m1: "reset_matches h now1 (f1 u)"
    using early by (simp add: reset_matches_def set_reset_def f1_def)
  have "\<exists>y. find (reset_matches h now1) st1 = Some y"
    using find_exists [of "f1 u" st1 "reset_matches h now1"] in1 m1 by simp
  then obtain w where w: "find (reset_matches h now1) st1 = Some w" ..
  then have w_in: "w \<in> set st1" and w_tok: "passwordResetToken w = Some h"
    by (auto dest!: find_SomeD simp: reset_matches_def)
  have w_uid: "uid w = uid u"
  proof -
    from w_in obtain v where v: "v \<in> set st" "w = f1 v" by (auto simp: st1_def)
    show ?thesis
    proof (cases "uid v = uid u")
      case True
      with v show ?thesis by (simp add: set_reset_def f1_def)
    next
      case False
      with v have "w = v" by (simp add: set_reset_def f1_def)
      with v w_tok fresh show ?thesis by (auto simp: h_def)
    qed
  qed
  have "findOne_reset st1 (sha256_hex E (params_token req')) now1 = Some w"
    using w tok by (simp add: findOne_reset_def h_def)
  from resetPassword_found [OF this]
  obtain r1 d where r1: "resetPassword E req' st1 now1 =
        (Responded r1, map (\<lambda>v. if uid v = uid w then persist True d v else v) st1)"
      and st200: "status r1 = 200"
      and d: "passwordResetToken d = None" "passwordResetExpires d = None"
    by blast
  define f2 where "f2 = (\<lambda>v. if uid v = uid w then persist True d v else v)"
  define st2 where "st2 = map f2 st1"
  have r1': "resetPassword E req' st1 now1 = (Responded r1, st2)"
    using r1 by (simp add: st2_def f2_def)
  have uid1: "uid (f1 v) = uid v" for v by (simp add: set_reset_def f1_def)
  have uid2: "uid (f2 v) = uid v" for v by (simp add: persist_def f2_def)
  have "\<exists>y. find (\<lambda>v. uid v = uid u) st = Some y"
    using find_exists [of u st "\<lambda>v. uid v = uid u"] u_in by simp
  then obtain u' where u': "findById st (uid u) = Some u'"
    by (auto simp: findById_def)
  then have u'_uid: "uid u' = uid u" by (auto simp: findById_def dest: find_SomeD)
  have byid: "findById st2 (uid u) = Some (f2 (f1 u'))"
    using u' by (simp add: findById_def st2_def st1_def find_map_preserve uid1 uid2)
  have cleared: "passwordResetToken (f2 (f1 u')) = None \<and> passwordResetExpires (f2 (f1 u')) = None"
    using u'_uid w_uid d by (simp add: set_reset_def persist_def f1_def f2_def)
  have none: "passwordResetToken v \<noteq> Some h" if "v \<in> set st2" for v
  proof -
    from that obtain v0 where v0: "v0 \<in> set st" "v = f2 (f1 v0)"
      by (auto simp: st2_def st1_def)
    show ?thesis
    proof (cases "uid v0 = uid u")
      case True
      with v0 w_uid d show ?thesis by (simp add: set_reset_def persist_def f1_def f2_def)
    next
      case False
      with v0 w_uid have "v = v0" by (simp add: set_reset_def f1_def f2_def)
      with v0 fresh show ?thesis by (auto simp: h_def)
    qed
  qed
  have again: "resetPassword E req' st2 now2 =
      (NextError (AppError ''Token is invalid or has expired'' 400), st2)" for now2
  proof -
    have "find (reset_matches h now2) st2 = None"
      unfolding find_None_iff using none by (auto simp: reset_matches_def)
    then show ?thesis using tok by (simp add: resetPassword_def findOne_reset_def h_def)
  qed
  from again have again': "\<forall>now2. resetPassword E req' st2 now2 =
      (NextError (AppError ''Token is invalid or has expired'' 400), st2)" by simp
  show ?thesis
    apply (rule exI [of _ "\<lparr>status = 200, cookies = [],
                  json = ResetBody ''success'' ''token sent to email'' rnd\<rparr>"])
    apply (rule exI [of _ st1])
    apply (rule exI [of _ r1])
    apply (rule exI [of _ st2])
    apply (rule exI [of _ "f2 (f1 u')"])
    using forgot r1' st200 byid cleared again' apply simp
    done
qed

text \<open>The round trip for the sample user: the token \<open>r1\<close> is stored hashed, resets the
  password once, and is refused the second time.\<close>

theorem reset_token_single_use_witness:
  "findOne_email [alice] (body_email (req_body forgot_request)) = Some alice
   \<and> sendEmail demo_env (reset_mail forgot_request alice ''r1'')
   \<and> snd (forgotPassword demo_env forgot_request ''r1'' [alice] 500)
       = [alice\<lparr>passwordResetToken := Some ''hr1'', passwordResetExpires := Some 600500\<rparr>]
   \<and> resetPassword demo_env (reset_request ''r1'' ''newpass99'')
        [alice\<lparr>passwordResetToken := Some ''hr1'', passwordResetExpires := Some 600500\<rparr>] 1000
       = (Responded (createAndSendToken demo_env (alice\<lparr>passwordChangedAt := Some 1000\<rparr>) 200 1000),
          [alice\<lparr>password := Some ''#newpass99'', passwordChangedAt := Some 1000\<rparr>])
   \<and> resetPassword demo_env (reset_request ''r1'' ''newpass99'')
        [alice\<lparr>password := Some ''#newpass99'', passwordChangedAt := Some 1000\<rparr>] 2000
       = (NextError (AppError ''Token is invalid or has expired'' 400),
          [alice\<lparr>password := Some ''#newpass99'', passwordChangedAt := Some 1000\<rparr>])"
  using reset_token_single_use [of "[alice]" forgot_request alice demo_env "''r1''"
      "reset_request ''r1'' ''newpass99''" "''newpass99''" 1000 500]
  by (simp add: sample_defs model_defs forgotPassword_def resetPassword_def)

text \<open>
  C5. For a \<^verbatim>\<open>forgotPassword\<close> request on an existing user: when delivery fails, the
  handler ends with the 500 error and the user's two reset fields are cleared in the
  collection, whatever they held before the request; the fields are left set (to the hash
  of the new token and an expiry ten minutes ahead) only when delivery succeeds. The
  collection after a failed delivery is the one before the request when the user had no
  reset pending.
\<close>

theorem forgotPassword_delivery_failure:
  assumes "findOne_email st (body_email (req_body req)) = Some u"
  shows "(\<not> sendEmail E (reset_mail req u rnd) \<longrightarrow>
            forgotPassword E req rnd st now =
              (NextError (AppError ''There was an Error Sending the email, try again later'' 500),
               map (set_reset (uid u) None None) st))
       \<and> (sendEmail E (reset_mail req u rnd) \<longrightarrow>
            forgotPassword E req rnd st now =
              (Responded \<lparr>status = 200, cookies = [],
                          json = ResetBody ''success'' ''token sent to email'' rnd\<rparr>,
               map (set_reset (uid u) (Some (sha256_hex E rnd)) (Some (now + 10 * 60 * 1000))) st))
       \<and> ((\<forall>v\<in>set st. uid v = uid u \<longrightarrow> passwordResetToken v = None \<and> passwordResetExpires v = None) \<longrightarrow>
            map (set_reset (uid u) None None) st = st)"
proof -
  have "map (set_reset (uid u) None None) st = st"
    if "\<forall>v\<in>set st. uid v = uid u \<longrightarrow> passwordResetToken v = None \<and> passwordResetExpires v = None"
    using that by (induction st) (auto simp: set_reset_def)
  then show ?thesis using forgotPassword_found [OF assms] by simp
qed

text \<open>The sample user has no reset pending: a failed delivery leaves the collection as it
  was, a successful one leaves the hash and the expiry.\<close>

theorem forgotPassword_delivery_failure_witness:
  "findOne_email [alice] (body_email (req_body forgot_request)) = Some alice
   \<and> \<not> sendEmail (demo_env\<lparr>sendEmail := \<lambda>m. False\<rparr>) (reset_mail forgot_request alice ''r1'')
   \<and> forgotPassword (demo_env\<lparr>sendEmail := \<lambda>m. False\<rparr>) forgot_request ''r1'' [alice] 500
       = (NextError (AppError ''There was an Error Sending the email, try again later'' 500), [alice])
   \<and> snd (forgotPassword demo_env forgot_request ''r1'' [alice] 500)
       = [alice\<lparr>passwordResetToken := Some ''hr1'', passwordResetExpires := Some 600500\<rparr>]"
  using forgotPassword_delivery_failure [of "[alice]" forgot_request alice "demo_env\<lparr>sendEmail := \<lambda>m. False\<rparr>" "''r1''" 500]
    forgotPassword_delivery_failure [of "[alice]" forgot_request alice demo_env "''r1''" 500]
  by (simp add: sample_defs model_defs)

text \<open>A user with a reset pending loses it when the delivery of a second mail fails:
  the reset state before the request is not restored.\<close>

theorem forgotPassword_rollback_counterexample:
  "findOne_email [carol] (body_email (req_body forgot_request)) = Some carol
   \<and> passwordResetToken carol = Some ''hold''
   \<and> passwordResetExpires carol = Some 900
   \<and> forgotPassword (demo_env\<lparr>sendEmail := \<lambda>m. False\<rparr>) forgot_request ''r1'' [carol] 500 =
       (NextError (AppError ''There was an Error Sending the email, try again later'' 500),
        [carol\<lparr>passwordResetToken := None, passwordResetExpires := None\<rparr>])
   \<and> snd (forgotPassword (demo_env\<lparr>sendEmail := \<lambda>m. False\<rparr>) forgot_request ''r1'' [carol] 500) \<noteq> [carol]"
  by (simp add: forgotPassword_def findOne_email_def forgot_request_def empty_request_def
        empty_body_def carol_def alice_def demo_env_def createPasswordResetToken_def
        save_def presave_def persist_def hide_password_def Let_def)

text \<open>
  C6. When every document either carries another reset token than the hash of the
  supplied one, or has no \<open>passwordResetExpires\<close> in the future, \<^verbatim>\<open>resetPassword\<close> ends
  with the one 400 error, the same for both causes, and leaves the collection as it was.
\<close>

theorem resetPassword_invalid_or_expired:
  assumes "\<forall>v\<in>set st. passwordResetToken v \<noteq> Some (sha256_hex E (params_token req))
                     \<or> (\<forall>e. passwordResetExpires v = Some e \<longrightarrow> e \<le> now)"
  shows "resetPassword E req st now = (NextError (AppError ''Token is invalid or has expired'' 400), st)"
proof -
  have "find (reset_matches (sha256_hex E (params_token req)) now) st = None"
    unfolding find_None_iff using assms
    by (fastforce simp: reset_matches_def split: option.splits)
  then show ?thesis by (simp add: resetPassword_def findOne_reset_def)
qed

text \<open>An expired token and a token nobody holds get the same answer; the pending token is
  accepted before its expiry.\<close>

theorem resetPassword_invalid_or_expired_witness:
  "passwordResetToken carol = Some (sha256_hex demo_env ''old'')
   \<and> passwordResetExpires carol = Some 900
   \<and> resetPassword demo_env (reset_request ''old'' ''newpass99'') [carol] 1000
       = (NextError (AppError ''Token is invalid or has expired'' 400), [carol])
   \<and> resetPassword demo_env (reset_request ''other'' ''newpass99'') [carol] 100
       = (NextError (AppError ''Token is invalid or has expired'' 400), [carol])
   \<and> fst (resetPassword demo_env (reset_request ''old'' ''newpass99'') [carol] 100)
       \<noteq> NextError (AppError ''Token is invalid or has expired'' 400)"
  using resetPassword_invalid_or_expired [of "[carol]" demo_env "reset_request ''old'' ''newpass99''" 1000]
    resetPassword_invalid_or_expired [of "[carol]" demo_env "reset_request ''other'' ''newpass99''" 100]
  by (simp add: sample_defs model_defs resetPassword_def)

subsection \<open>The success envelope\<close>

text \<open>
  C7. Whenever \<^verbatim>\<open>signup\<close>, \<^verbatim>\<open>login\<close>, \<^verbatim>\<open>resetPassword\<close> or \<^verbatim>\<open>updatePassword\<close> sends a
  response, its body is \<^verbatim>\<open>{status, token, data: {user}}\<close> with status \<^verbatim>\<open>success\<close>, and
  the user in it has no password.
\<close>

theorem success_envelope_without_password:
  assumes "fst (signup E req st now) = Responded r
         \<or> fst (login E req st now) = Responded r
         \<or> fst (resetPassword E req st now) = Responded r
         \<or> fst (updatePassword E req st now) = Responded r"
  shows "\<exists>tok u. json r = TokenBody ''success'' tok u \<and> password u = None"
proof -
  from assms obtain u code where "r = createAndSendToken E u code now"
    by (auto simp: signup_def login_def resetPassword_def updatePassword_def Let_def
             split: option.splits sum.splits if_splits prod.splits)
  then show ?thesis using createAndSendToken_body by simp
qed

text \<open>A successful login of the sample user.\<close>

theorem success_envelope_without_password_witness:
  "fst (login demo_env (login_request ''a@b.com'' ''secret123'') [alice] 0)
     = Responded (createAndSendToken demo_env alice 200 0)
   \<and> json (createAndSendToken demo_env alice 200 0) = TokenBody ''success'' ''signed'' (alice\<lparr>password := None\<rparr>)"
  using success_envelope_without_password [of demo_env "login_request ''a@b.com'' ''secret123''" "[alice]" 0
      "createAndSendToken demo_env alice 200 0"]
  by (simp add: sample_defs model_defs login_def)

subsection \<open>Signup\<close>

text \<open>
  C8. A body that the validation schema rejects ends \<^verbatim>\<open>signup\<close> with a 400 error that
  carries the schema's message, whatever \<^verbatim>\<open>User.create\<close> would do, and with the
  collection as it was; a \<^verbatim>\<open>signup\<close> that sends a response or changes the collection
  had a body that passed validation.
\<close>

theorem signup_validation_short_circuit:
  "(authValidate E (req_body req) = Some m \<longrightarrow>
      signup E req st now = (NextError (AppError m 400), st))
   \<and> ((\<exists>r. fst (signup E req st now) = Responded r) \<longrightarrow> authValidate E (req_body req) = None)
   \<and> (snd (signup E req st now) \<noteq> st \<longrightarrow> authValidate E (req_body req) = None)"
  by (auto simp: signup_def split: option.splits sum.splits)

text \<open>The sample schema rejects a body without email.\<close>

theorem signup_validation_short_circuit_witness:
  "authValidate demo_env (req_body empty_request) = Some ''email is required''
   \<and> signup demo_env empty_request [alice] 0 = (NextError (AppError ''email is required'' 400), [alice])"
  using signup_validation_short_circuit [of demo_env empty_request "''email is required''" "[alice]" 0]
  by (simp add: sample_defs model_defs)

text \<open>
  C10. For a body that passes validation and has an address, the object that \<^verbatim>\<open>signup\<close>
  hands to \<^verbatim>\<open>User.create\<close> has the role of the body, unchanged, whatever that role is;
  the handler's result is then what \<^verbatim>\<open>User.create\<close> makes of that object.
\<close>

theorem signup_forwards_role:
  assumes "authValidate E (req_body req) = None"
    and "body_address (req_body req) = Some a"
  shows "\<exists>args. signup_fields (req_body req) = Some args
           \<and> role args = body_role (req_body req)
           \<and> signup E req st now =
               (case User_create E args now st of
                  Inl e \<Rightarrow> (Thrown e, st)
                | Inr (newUser, st') \<Rightarrow> (Responded (createAndSendToken E newUser 201 now), st'))"
  using assms by (simp add: signup_def signup_fields_def)

text \<open>A client that asks for the role \<open>admin\<close> gets a user created with it.\<close>

theorem signup_forwards_role_witness:
  "authValidate demo_env (req_body signup_request) = None
   \<and> body_role (req_body signup_request) = Some ''admin''
   \<and> map role (snd (signup demo_env signup_request [] 0)) = [Some ''admin'']"
  using signup_forwards_role [of demo_env signup_request _ "[]" 0]
  by (simp add: sample_defs model_defs signup_def)

end
